theory Spec2Isabelle
  imports Main "HOL-Library.Word" "HOL-Library.Sublist"
begin

section \<open>Python values and exceptions\<close>

text \<open>
  Paths, file names, encoding names and glob patterns are \<open>string\<close>s. The content of a
  text file and the text taken out of a document are sequences of Unicode code points
  (the extraction rules mention U+3000, which is no \<open>char\<close>), the content of a binary
  file is a sequence of bytes.
\<close>

type_synonym byte = "8 word"
type_synonym bytes = "byte list"
type_synonym pystr = "nat list"

datatype error =
    NameError string
  | TypeError
  | LookupError
  | UnicodeEncodeError
  | UnicodeDecodeError
  | FileNotFoundError
  | NotADirectoryError
  | IsADirectoryError
  | FileExistsError
  | ConnectFault
  | OperationFailure
  | ParseFault

section \<open>Strings\<close>

fun split_on :: "char \<Rightarrow> string \<Rightarrow> string list" where
  \<comment> \<open>\<open>s.split(sep)\<close> for a separator of one character\<close>
  "split_on sep [] = [[]]"
| "split_on sep (c # cs) =
     (if c = sep then [] # split_on sep cs
      else (case split_on sep cs of
              [] \<Rightarrow> [[c]]
            | w # ws \<Rightarrow> (c # w) # ws))"

fun join :: "string \<Rightarrow> string list \<Rightarrow> string" where
  \<comment> \<open>\<open>sep.join(xs)\<close>\<close>
  "join sep [] = []"
| "join sep [x] = x"
| "join sep (x # y # ys) = x @ sep @ join sep (y # ys)"

definition or_str :: "string option \<Rightarrow> string \<Rightarrow> string" where
  \<comment> \<open>\<open>x or d\<close> for \<open>x: str | None\<close>: \<open>None\<close> and the empty string are false\<close>
  "or_str x d = (case x of None \<Rightarrow> d | Some s \<Rightarrow> if s = [] then d else s)"

section \<open>pathlib, POSIX flavour\<close>

text \<open>
  A pure path is its anchor (empty for a relative path, one slash, or two slashes for
  exactly two leading slashes) and its components. Parsing drops empty and \<open>.\<close>
  components and keeps \<open>..\<close>.
\<close>

datatype path = PosixPath (anchor: string) (parts: "string list")

definition Path :: "string \<Rightarrow> path" where
  "Path s =
     PosixPath
       (let n = length (takeWhile (\<lambda>c. c = CHR ''/'') s)
        in if n = 0 then [] else if n = 2 then ''//'' else ''/'')
       (filter (\<lambda>x. x \<noteq> [] \<and> x \<noteq> ''.'') (split_on (CHR ''/'') s))"

definition truediv :: "path \<Rightarrow> path \<Rightarrow> path" where
  \<comment> \<open>\<open>p / q\<close>: an absolute right operand replaces the left one\<close>
  "truediv p q = (if anchor q \<noteq> [] then q else PosixPath (anchor p) (parts p @ parts q))"

definition parent :: "path \<Rightarrow> path" where
  "parent p = (if parts p = [] then p else PosixPath (anchor p) (butlast (parts p)))"

definition name :: "path \<Rightarrow> string" where
  "name p = (if parts p = [] then [] else last (parts p))"

definition str_path :: "path \<Rightarrow> string" where
  "str_path p = (if anchor p = [] \<and> parts p = [] then ''.'' else anchor p @ join ''/'' (parts p))"

definition join_path :: "string \<Rightarrow> string \<Rightarrow> path" where
  "join_path file_path file_name =
     truediv (truediv (Path file_path) (parent (Path file_name))) (Path (name (Path file_name)))"

section \<open>The store\<close>

record store =
  self_root_dir :: string
  self_encoding :: string

section \<open>The remote share\<close>

text \<open>
  The share server is outside the program. What it answers to the three calls the storage
  makes (\<open>connect\<close>, \<open>listPath\<close>, \<open>retrieveFile\<close>) is a parameter of the model; an
  answer \<open>Some e\<close> or \<open>Inl e\<close> is the exception the call raises. Within one call of
  \<open>find\<close> every pattern is listed at most once, and one call of \<open>getText\<close> retrieves one
  file, so answers that depend on the arguments only lose nothing.
\<close>

record shared_file =
  filename :: string
  isDirectory :: bool

record smb_server =
  connect_result :: "string option \<Rightarrow> string option \<Rightarrow> string option \<Rightarrow> nat \<Rightarrow> error option"
  listPath_result :: "string option \<Rightarrow> string option \<Rightarrow> string \<Rightarrow> error + shared_file list"
  retrieveFile_result :: "string \<Rightarrow> string \<Rightarrow> error + bytes"

text \<open>
  \<open>Progress\<close> as \<open>_create_progress_status\<close> fills it (its fourth field, \<open>percent\<close>,
  keeps its default).
\<close>

record progress =
  total_items :: int
  completed_items :: int
  description :: string

datatype progress_reporter = ProgressReporter

type_synonym file_record = "string \<times> (string \<times> string) list"

text \<open>
  Everything a call does beyond computing its result is recorded, in order: the calls to
  the share (a \<open>Connect\<close> carries the exception it raised, if any), what is printed, the
  items the generator yields and the calls of the progress callback.
\<close>

datatype event =
    Connect "string option" nat "error option"
  | ListPath "string option" "string option" string
  | RetrieveFile string string
  | Close
  | Print error
  | Yield file_record
  | Report progress

section \<open>Decimal numerals\<close>

definition digit_char :: "nat \<Rightarrow> char" where
  "digit_char d = ''0123456789'' ! d"

fun str_nat :: "nat \<Rightarrow> string" where
  "str_nat n = (if n < 10 then [digit_char n] else str_nat (n div 10) @ [digit_char (n mod 10)])"

declare str_nat.simps [simp del]

definition str_int :: "int \<Rightarrow> string" where
  "str_int i = (if i < 0 then CHR ''-'' # str_nat (nat (- i)) else str_nat (nat i))"

section \<open>find\<close>

definition create_progress_status :: "int \<Rightarrow> int \<Rightarrow> int \<Rightarrow> progress" where
  \<comment> \<open>\<open>_create_progress_status\<close>\<close>
  "create_progress_status num_loaded num_filtered num_total =
     \<lparr> total_items = num_total,
       completed_items = num_loaded + num_filtered,
       description = str_int num_loaded @ '' files loaded ('' @ str_int num_filtered @ '' filtered)'' \<rparr>"

definition patterns :: "string list" where
  "patterns = [''*.docx'', ''*.pdf'', ''*.xlsx'', ''*.xlsm'', ''*.pptx'', ''*.txt'', ''*.html'', ''*.md'', ''*.csv'']"

text \<open>
  The \<open>for pattern in patterns\<close> loop inside the \<open>try\<close>: the items collected so far, the
  exception that ended the loop (if any) and the listing calls made.
\<close>

fun collect_items ::
  "smb_server \<Rightarrow> string option \<Rightarrow> string option \<Rightarrow> string list
     \<Rightarrow> shared_file list \<times> error option \<times> event list" where
  "collect_items srv share_directory file_path [] = ([], None, [])"
| "collect_items srv share_directory file_path (pattern # rest) =
     (case listPath_result srv share_directory file_path pattern of
        Inl e \<Rightarrow> ([], Some e, [ListPath share_directory file_path pattern])
      | Inr files \<Rightarrow>
          (case collect_items srv share_directory file_path rest of
             (items, fault, tr) \<Rightarrow>
               (files @ items, fault, ListPath share_directory file_path pattern # tr)))"

text \<open>The \<open>for file in all_files\<close> loop, run until the generator is exhausted.\<close>

fun yield_files ::
  "int \<Rightarrow> progress_reporter option \<Rightarrow> int \<Rightarrow> int \<Rightarrow> int \<Rightarrow> string list \<Rightarrow> event list" where
  "yield_files max_count progress num_loaded num_filtered num_total [] = []"
| "yield_files max_count progress num_loaded num_filtered num_total (file # rest) =
     Yield (file, []) #
     (let num_loaded = num_loaded + 1 in
      if max_count > 0 \<and> num_loaded \<ge> max_count then []
      else
        (case progress of
           None \<Rightarrow> []
         | Some _ \<Rightarrow> [Report (create_progress_status num_loaded num_filtered num_total)])
        @ yield_files max_count progress num_loaded num_filtered num_total rest)"

definition find_files ::
  "smb_server \<Rightarrow> store \<Rightarrow> string \<Rightarrow> string option \<Rightarrow> progress_reporter option
     \<Rightarrow> (string \<times> string) list option \<Rightarrow> int
     \<Rightarrow> string option \<Rightarrow> string option \<Rightarrow> string option \<Rightarrow> string option \<Rightarrow> string option
     \<Rightarrow> (error + unit) \<times> event list" where
  \<comment> \<open>\<open>FilePipelineStorage.find\<close>, the generator run to its end\<close>
  "find_files srv self file_pattern base_dir progress file_filter max_count
       userid password share_directory file_server file_path =
     (let search_path = truediv (Path (self_root_dir self)) (Path (or_str base_dir []));
          RMADDR = file_server;
          RMPORT = 445
      in case connect_result srv userid password RMADDR RMPORT of
           Some e \<Rightarrow> (Inl e, [Connect RMADDR RMPORT (Some e)])
         | None \<Rightarrow>
             (case collect_items srv share_directory file_path patterns of
                (items, fault, tr) \<Rightarrow>
                  (let all_files = map filename items;
                       num_loaded = 0;
                       num_total = int (length all_files);
                       num_filtered = 0
                   in (Inr (),
                       Connect RMADDR RMPORT None # tr
                       @ (case fault of None \<Rightarrow> [] | Some e \<Rightarrow> [Print e])
                       @ Close
                       # yield_files max_count progress num_loaded num_filtered num_total all_files))))"

text \<open>Views of a trace: the items yielded, the patterns listed, what the consumer sees.\<close>

fun yielded :: "event list \<Rightarrow> file_record list" where
  "yielded [] = []"
| "yielded (Yield r # tr) = r # yielded tr"
| "yielded (_ # tr) = yielded tr"

fun listed :: "event list \<Rightarrow> string list" where
  "listed [] = []"
| "listed (ListPath _ _ pattern # tr) = pattern # listed tr"
| "listed (_ # tr) = listed tr"

fun consumer_view :: "event list \<Rightarrow> event list" where
  "consumer_view [] = []"
| "consumer_view (Yield r # tr) = Yield r # consumer_view tr"
| "consumer_view (Report p # tr) = Report p # consumer_view tr"
| "consumer_view (_ # tr) = consumer_view tr"

definition discovered :: "smb_server \<Rightarrow> string option \<Rightarrow> string option \<Rightarrow> string list" where
  \<comment> \<open>\<open>all_files\<close>: the names of the items that the listing loop collected\<close>
  "discovered srv share_directory file_path =
     map filename (fst (collect_items srv share_directory file_path patterns))"


text \<open>The first \<open>max_count\<close> elements when \<open>max_count\<close> is positive, all of them otherwise.\<close>

definition limit :: "int \<Rightarrow> 'a list \<Rightarrow> 'a list" where
  "limit max_count xs = (if 0 < max_count then take (nat max_count) xs else xs)"

section \<open>Example shares and stores\<close>

definition file_named :: "string \<Rightarrow> shared_file" where
  "file_named n = \<lparr> filename = n, isDirectory = False \<rparr>"

definition office_listing :: "(string \<times> shared_file list) list" where
  "office_listing =
     [(''*.docx'', [file_named ''a.docx'', file_named ''b.docx'']),
      (''*.pdf'', [file_named ''c.pdf'']),
      (''*.xlsx'', [file_named ''d.xlsx'', file_named ''e.xlsx'']),
      (''*.txt'', [file_named ''f.txt'', file_named ''g.txt'', file_named ''h.txt'']),
      (''*.md'', [file_named ''i.md'']),
      (''*.csv'', [file_named ''j.csv''])]"

definition office_share :: smb_server where
  "office_share =
     \<lparr> connect_result = (\<lambda>userid password address port.
          if userid = Some ''alice'' \<and> password = Some ''secret'' \<and> address = Some ''fs01'' \<and> port = 445
          then None else Some ConnectFault),
       listPath_result = (\<lambda>share_directory file_path pattern.
          if share_directory = Some ''anthra'' \<and> file_path = Some ''in''
          then Inr (case map_of office_listing pattern of None \<Rightarrow> [] | Some fs \<Rightarrow> fs)
          else Inl OperationFailure),
       retrieveFile_result = (\<lambda>share p.
          if share = ''anthra'' \<and> p = ''in/f.txt'' then Inr [104, 105]
          else if share = ''anthra'' \<and> p = ''in/notes.xyz'' then Inr [1, 2, 3]
          else Inl OperationFailure) \<rparr>"

definition flaky_share :: smb_server where
  "flaky_share =
     office_share \<lparr> listPath_result := (\<lambda>share_directory file_path pattern.
        if pattern = ''*.pdf'' then Inl OperationFailure
        else listPath_result office_share share_directory file_path pattern) \<rparr>"

definition out_store :: store where
  "out_store = \<lparr> self_root_dir = ''out'', self_encoding = ''utf-8'' \<rparr>"

section \<open>Extraction rules\<close>

text \<open>
  \<open>s.replace(old, new)\<close>: the occurrences of \<open>old\<close> are replaced from left to right,
  without overlap; an empty \<open>old\<close> matches before every character and at the end.
\<close>

function replace :: "pystr \<Rightarrow> pystr \<Rightarrow> pystr \<Rightarrow> pystr" where
  "replace [] old new = (if old = [] then new else [])"
| "replace (c # cs) old new =
     (if old = [] then new @ c # replace cs old new
      else if prefix old (c # cs) then new @ replace (drop (length old) (c # cs)) old new
      else c # replace cs old new)"
  by pat_completeness auto
termination
  by (relation "measure (\<lambda>(s, old, new). length s)") auto

text \<open>
  The document parsers (python-docx, python-pptx, openpyxl) and the default codec of
  \<open>bytes.decode()\<close> are outside the program: they are parameters, and a document is what
  the extraction rules read of it.
\<close>

datatype docx_paragraph = Paragraph (par_text: pystr)

datatype docx_document = Document (paragraphs: "docx_paragraph list")

record shape =
  has_text_frame :: bool
  shape_text :: pystr

datatype slide = Slide (shapes: "shape list")

datatype presentation = Presentation (slides: "slide list")

text \<open>
  A workbook: its sheets in order, each with its name and its rows of cells; a cell is
  \<open>None\<close> when it has no value and \<open>str(value)\<close> otherwise.
\<close>

type_synonym workbook = "(pystr \<times> pystr option list list) list"

record libraries =
  docx_Document :: "bytes \<Rightarrow> error + docx_document"
  pptx_Presentation :: "bytes \<Rightarrow> error + presentation"
  openpyxl_load_workbook :: "bytes \<Rightarrow> error + workbook"
  bytes_decode :: "bytes \<Rightarrow> error + pystr"

text \<open>
  Name resolution. A name that a method's body does not bind is looked up in the module's
  globals and then in the builtins; the namespace of the enclosing class body is not
  searched. These are the names the module binds (its imports, \<open>log\<close>, the class and the
  three functions), the names the class body binds, and the builtins the module uses (the
  builtins hold more names; none of them is looked up below).
\<close>

datatype rule = PdfRule | WordRule | ExcelRule | PowerpointRule | BinaryRule

datatype binding = Imported | Defined | Builtin | Table "(string \<times> rule) list"

definition func_dict :: "(string \<times> rule) list" where
  "func_dict =
     [(''pdf'', PdfRule),
      (''docx'', WordRule),
      (''xlsx'', ExcelRule),
      (''xlsm'', ExcelRule),
      (''pptx'', PowerpointRule),
      (''txt'', BinaryRule),
      (''html'', BinaryRule),
      (''md'', BinaryRule),
      (''csv'', BinaryRule)]"

definition module_globals :: "(string \<times> binding) list" where
  "module_globals =
     map (\<lambda>n. (n, Imported))
       [''logging'', ''os'', ''re'', ''shutil'', ''Iterator'', ''Path'', ''Any'', ''cast'',
        ''aiofiles'', ''remove'', ''exists'', ''Progress'', ''ProgressReporter'',
        ''PipelineStorage'', ''requests'', ''platform'', ''SMBConnection'', ''docx'',
        ''openpyxl'', ''pptx'', ''io'']
     @ map (\<lambda>n. (n, Defined))
       [''log'', ''FilePipelineStorage'', ''join_path'', ''create_file_storage'',
        ''_create_progress_status'']"

definition class_namespace :: "(string \<times> binding) list" where
  "class_namespace =
     map (\<lambda>n. (n, Defined))
       [''__init__'', ''get_text_from_binary'', ''get_text_from_pdf'',
        ''get_text_from_powerpoint'', ''get_text_from_word'', ''get_text_from_excel'']
     @ [(''func_dict'', Table func_dict)]
     @ map (\<lambda>n. (n, Defined))
       [''find'', ''get'', ''getText'', ''_read_file'', ''set'', ''has'', ''delete'', ''clear'',
        ''child'']"

definition builtins :: "string list" where
  "builtins = [''print'', ''list'', ''map'', ''tuple'', ''str'', ''enumerate'', ''isinstance'',
     ''bytes'', ''Exception'', ''len'']"

definition load_global :: "string \<Rightarrow> error + binding" where
  "load_global n =
     (case map_of module_globals n of
        Some b \<Rightarrow> Inr b
      | None \<Rightarrow> if n \<in> set builtins then Inr Builtin else Inl (NameError n))"

definition get_text_from_binary :: "libraries \<Rightarrow> bytes \<Rightarrow> error + pystr" where
  "get_text_from_binary libs file = bytes_decode libs file"

definition get_text_from_pdf :: "libraries \<Rightarrow> bytes \<Rightarrow> error + pystr" where
  \<comment> \<open>the body calls \<open>extract_text_to_fp\<close>, which the module never imports\<close>
  "get_text_from_pdf libs file =
     (case load_global ''extract_text_to_fp'' of
        Inl e \<Rightarrow> Inl e
      | Inr _ \<Rightarrow> Inl TypeError)"

definition get_text_from_powerpoint :: "libraries \<Rightarrow> bytes \<Rightarrow> error + pystr" where
  "get_text_from_powerpoint libs file =
     (case pptx_Presentation libs file of
        Inl e \<Rightarrow> Inl e
      | Inr prs \<Rightarrow>
          Inr (concat (map (\<lambda>sld.
                 concat (map (\<lambda>shp.
                   if has_text_frame shp
                   then replace (replace (replace (replace (shape_text shp) [10] []) [10] []) [32] []) [12288] []
                   else [])
                 (shapes sld)))
               (slides prs))))"

definition get_text_from_word :: "libraries \<Rightarrow> bytes \<Rightarrow> error + pystr" where
  "get_text_from_word libs file =
     (case docx_Document libs file of
        Inl e \<Rightarrow> Inl e
      | Inr document \<Rightarrow>
          (let text_list = map par_text (paragraphs document);
               joined = concat text_list;
               output = replace (replace joined [32] []) [12288] []
           in Inr output))"

definition get_text_from_excel :: "libraries \<Rightarrow> bytes \<Rightarrow> error + pystr" where
  "get_text_from_excel libs file =
     (case openpyxl_load_workbook libs file of
        Inl e \<Rightarrow> Inl e
      | Inr book \<Rightarrow>
          Inr (concat (map (\<lambda>(sheet_name, rows).
                 sheet_name @ [10]
                 @ concat (map (\<lambda>cells.
                     concat (map (\<lambda>data. case data of None \<Rightarrow> [] | Some d \<Rightarrow> d) cells) @ [10])
                   rows)
                 @ [10, 10])
               book)))"

definition apply_rule :: "libraries \<Rightarrow> rule \<Rightarrow> bytes \<Rightarrow> error + pystr" where
  "apply_rule libs func file =
     (case func of
        PdfRule \<Rightarrow> get_text_from_pdf libs file
      | WordRule \<Rightarrow> get_text_from_word libs file
      | ExcelRule \<Rightarrow> get_text_from_excel libs file
      | PowerpointRule \<Rightarrow> get_text_from_powerpoint libs file
      | BinaryRule \<Rightarrow> get_text_from_binary libs file)"

section \<open>getText\<close>

definition rfind :: "char \<Rightarrow> string \<Rightarrow> int" where
  \<comment> \<open>\<open>p.rfind(c)\<close>: the last index of \<open>c\<close>, or \<open>-1\<close>\<close>
  "rfind c p = (case filter (\<lambda>i. p ! i = c) (rev [0..<length p]) of [] \<Rightarrow> - 1 | i # _ \<Rightarrow> int i)"

definition splitext :: "string \<Rightarrow> string \<times> string" where
  \<comment> \<open>\<open>os.path.splitext\<close>: the extension starts at the last dot of the last component,
      unless only dots come before it in that component\<close>
  "splitext p =
     (let sepIndex = rfind (CHR ''/'') p;
          dotIndex = rfind (CHR ''.'') p
      in if dotIndex > sepIndex
            \<and> list_ex (\<lambda>i. p ! i \<noteq> CHR ''.'') [nat (sepIndex + 1)..<nat dotIndex]
         then (take (nat dotIndex) p, drop (nat dotIndex) p)
         else (p, []))"

definition lower :: "string \<Rightarrow> string" where
  \<comment> \<open>\<open>s.lower()\<close> on the letters A to Z; other characters are kept\<close>
  "lower s =
     map (\<lambda>c. case map_of (zip ''ABCDEFGHIJKLMNOPQRSTUVWXYZ'' ''abcdefghijklmnopqrstuvwxyz'') c of
                 None \<Rightarrow> c
               | Some l \<Rightarrow> l) s"

definition format_str :: "string option \<Rightarrow> string" where
  \<comment> \<open>\<open>f'{x}'\<close> for \<open>x: str | None\<close>\<close>
  "format_str x = (case x of None \<Rightarrow> ''None'' | Some s \<Rightarrow> s)"

definition getText ::
  "libraries \<Rightarrow> smb_server \<Rightarrow> store \<Rightarrow> string \<Rightarrow> bool option \<Rightarrow> string option
     \<Rightarrow> string option \<Rightarrow> string option \<Rightarrow> string option \<Rightarrow> string option \<Rightarrow> string option
     \<Rightarrow> (error + pystr) \<times> event list" where
  "getText libs srv self key as_bytes encoding
       userid password share_directory file_server file_path =
     (let response = [];
          RMADDR = file_server;
          RMPORT = 445
      in case connect_result srv userid password RMADDR RMPORT of
           Some e \<Rightarrow> (Inl e, [Connect RMADDR RMPORT (Some e)])
         | None \<Rightarrow>
             (let ext = snd (splitext key);
                  ext = lower (drop 1 ext);
                  remote_path = format_str file_path @ ''/'' @ key;
                  opened = [Connect RMADDR RMPORT None, RetrieveFile ''anthra'' remote_path]
              in case retrieveFile_result srv ''anthra'' remote_path of
                   Inl e \<Rightarrow> (Inl e, opened)
                 | Inr file \<Rightarrow>
                     (case load_global ''func_dict'' of
                        Inl e \<Rightarrow> (Inl e, opened)
                      | Inr (Table d) \<Rightarrow>
                          (case map_of d ext of
                             None \<Rightarrow> (Inr response, opened @ [Close])
                           | Some func \<Rightarrow>
                               (case apply_rule libs func file of
                                  Inl e \<Rightarrow> (Inl e, opened)
                                | Inr response \<Rightarrow> (Inr response, opened @ [Close])))
                      | Inr _ \<Rightarrow> (Inl TypeError, opened))))"

text \<open>Whether a trace leaves a session open: a successful connect opens it, close closes it.\<close>

fun session_open :: "bool \<Rightarrow> event list \<Rightarrow> bool" where
  "session_open s [] = s"
| "session_open s (Connect _ _ None # tr) = session_open True tr"
| "session_open s (Close # tr) = session_open False tr"
| "session_open s (_ # tr) = session_open s tr"

definition example_libs :: libraries where
  "example_libs =
     \<lparr> docx_Document = (\<lambda>file.
          if file = [80, 75, 3, 4]
          then Inr (Document [Paragraph [97, 32, 98], Paragraph [99, 12288, 100]])
          else Inl ParseFault),
       pptx_Presentation = (\<lambda>file. Inl ParseFault),
       openpyxl_load_workbook = (\<lambda>file. Inl ParseFault),
       bytes_decode = (\<lambda>file. Inr (map unat file)) \<rparr>"

section \<open>The local file system\<close>

text \<open>
  A file system without symbolic links and without permissions: a current directory and
  the nodes at absolute locations (lists of components; the root, the empty list, is
  always a directory). A path string is resolved as the operating system does it,
  component by component, and every component is taken in a directory.
\<close>

datatype node = File bytes | Dir

record filesystem =
  cwd :: "string list"
  nodes :: "string list \<rightharpoonup> node"

definition node_at :: "filesystem \<Rightarrow> string list \<Rightarrow> node option" where
  "node_at fs loc = (if loc = [] then Some Dir else nodes fs loc)"

definition enter :: "string list \<Rightarrow> string \<Rightarrow> string list" where
  "enter cur c = (if c = ''.'' then cur else if c = ''..'' then butlast cur else cur @ [c])"

fun walk :: "filesystem \<Rightarrow> string list \<Rightarrow> string list \<Rightarrow> error + string list" where
  "walk fs cur [] = Inr cur"
| "walk fs cur (c # cs) =
     (case node_at fs cur of
        None \<Rightarrow> Inl FileNotFoundError
      | Some (File _) \<Rightarrow> Inl NotADirectoryError
      | Some Dir \<Rightarrow> walk fs (enter cur c) cs)"

definition locate :: "filesystem \<Rightarrow> string \<Rightarrow> error + string list" where
  "locate fs p =
     (if p = [] then Inl FileNotFoundError
      else walk fs (if hd p = CHR ''/'' then [] else cwd fs)
             (filter (\<lambda>c. c \<noteq> []) (split_on (CHR ''/'') p)
              @ (if last p = CHR ''/'' then [''.''] else [])))"

definition exists :: "filesystem \<Rightarrow> string \<Rightarrow> bool" where
  \<comment> \<open>\<open>os.path.exists\<close>: false on every error\<close>
  "exists fs p = (case locate fs p of Inl _ \<Rightarrow> False | Inr loc \<Rightarrow> node_at fs loc \<noteq> None)"

definition open_write :: "filesystem \<Rightarrow> string \<Rightarrow> error + string list \<times> filesystem" where
  \<comment> \<open>opening in mode \<open>w\<close> or \<open>wb\<close> creates the file or truncates it\<close>
  "open_write fs p =
     (case locate fs p of
        Inl e \<Rightarrow> Inl e
      | Inr loc \<Rightarrow>
          if node_at fs loc = Some Dir then Inl IsADirectoryError
          else Inr (loc, fs\<lparr>nodes := (nodes fs)(loc \<mapsto> File [])\<rparr>))"

definition open_read :: "filesystem \<Rightarrow> string \<Rightarrow> error + bytes" where
  \<comment> \<open>opening in mode \<open>r\<close> or \<open>rb\<close> and reading to the end\<close>
  "open_read fs p =
     (case locate fs p of
        Inl e \<Rightarrow> Inl e
      | Inr loc \<Rightarrow>
          (case node_at fs loc of
             None \<Rightarrow> Inl FileNotFoundError
           | Some Dir \<Rightarrow> Inl IsADirectoryError
           | Some (File b) \<Rightarrow> Inr b))"


definition os_mkdir :: "filesystem \<Rightarrow> string \<Rightarrow> error + filesystem" where
  "os_mkdir fs p =
     (case locate fs p of
        Inl e \<Rightarrow> Inl e
      | Inr loc \<Rightarrow>
          if node_at fs loc \<noteq> None then Inl FileExistsError
          else Inr (fs\<lparr>nodes := (nodes fs)(loc \<mapsto> Dir)\<rparr>))"

definition is_dir :: "filesystem \<Rightarrow> path \<Rightarrow> bool" where
  "is_dir fs p =
     (case locate fs (str_path p) of Inl _ \<Rightarrow> False | Inr loc \<Rightarrow> node_at fs loc = Some Dir)"

text \<open>
  \<open>Path.mkdir(parents, exist_ok)\<close>: try to make the directory; when a parent is missing
  and \<open>parents\<close> is set, make the parent with its parents and try once more; any other
  error is dropped when \<open>exist_ok\<close> is set and the path is a directory.
\<close>

function mkdir :: "path \<Rightarrow> bool \<Rightarrow> bool \<Rightarrow> filesystem \<Rightarrow> error + filesystem" where
  "mkdir p parents exist_ok fs =
     (case os_mkdir fs (str_path p) of
        Inr fs' \<Rightarrow> Inr fs'
      | Inl e \<Rightarrow>
          if e = FileNotFoundError then
            (if \<not> parents \<or> parts p = [] then Inl e
             else (case mkdir (parent p) True True fs of
                     Inl e' \<Rightarrow> Inl e'
                   | Inr fs1 \<Rightarrow> mkdir p False exist_ok fs1))
          else if \<not> exist_ok \<or> \<not> is_dir fs p then Inl e
          else Inr fs)"
  by pat_completeness auto
termination
  by (relation "measure (\<lambda>(p, parents, exist_ok, fs). 2 * length (parts p) + (if parents then 1 else 0))")
     (auto simp add: parent_def)

declare mkdir.simps [simp del]

section \<open>Text files\<close>

text \<open>
  A codec encodes a text to bytes and decodes bytes to a text, or fails. Which codec an
  encoding name denotes (\<open>codecs.lookup\<close>) is a parameter. A text file opened with the
  default \<open>newline\<close> writes a line feed as \<open>os.linesep\<close> (a line feed on POSIX) and reads
  with universal newlines: a carriage return, with the line feed after it if there is
  one, is read as a line feed.
\<close>

record codec =
  encode :: "pystr \<Rightarrow> bytes option"
  decode :: "bytes \<Rightarrow> pystr option"

definition os_linesep :: pystr where
  "os_linesep = [10]"

definition write_newlines :: "pystr \<Rightarrow> pystr" where
  "write_newlines s = concat (map (\<lambda>c. if c = 10 then os_linesep else [c]) s)"

fun universal_newlines :: "pystr \<Rightarrow> pystr" where
  "universal_newlines [] = []"
| "universal_newlines [c] = (if c = 13 then [10] else [c])"
| "universal_newlines (c # d # s) =
     (if c = 13 \<and> d = 10 then 10 # universal_newlines s
      else if c = 13 then 10 # universal_newlines (d # s)
      else c # universal_newlines (d # s))"

datatype pyvalue = PyBytes bytes | PyStr pystr | PyOther

definition isinstance_bytes :: "pyvalue \<Rightarrow> bool" where
  "isinstance_bytes v = (case v of PyBytes _ \<Rightarrow> True | _ \<Rightarrow> False)"

definition truthy :: "bool option \<Rightarrow> bool" where
  \<comment> \<open>the truth value of \<open>as_bytes: bool | None\<close>\<close>
  "truthy b = (b = Some True)"

section \<open>The local store\<close>

definition init :: "string option \<Rightarrow> string option \<Rightarrow> filesystem \<Rightarrow> error + store \<times> filesystem" where
  \<comment> \<open>\<open>FilePipelineStorage.__init__\<close>\<close>
  "init root_dir encoding fs =
     (let self = \<lparr> self_root_dir = or_str root_dir [], self_encoding = or_str encoding ''utf-8'' \<rparr>
      in case mkdir (Path (self_root_dir self)) True True fs of
           Inl e \<Rightarrow> Inl e
         | Inr fs' \<Rightarrow> Inr (self, fs'))"

definition has :: "store \<Rightarrow> string \<Rightarrow> filesystem \<Rightarrow> bool" where
  "has self key fs = exists fs (str_path (join_path (self_root_dir self) key))"

definition read_file ::
  "(string \<Rightarrow> codec option) \<Rightarrow> store \<Rightarrow> string \<Rightarrow> bool option \<Rightarrow> string option \<Rightarrow> filesystem
     \<Rightarrow> error + pyvalue" where
  \<comment> \<open>\<open>_read_file\<close>\<close>
  "read_file lookup self p as_bytes encoding fs =
     (let encoding = (if truthy as_bytes then None else Some (or_str encoding (self_encoding self)))
      in case open_read fs p of
           Inl e \<Rightarrow> Inl e
         | Inr b \<Rightarrow>
             (case encoding of
                None \<Rightarrow> Inr (PyBytes b)
              | Some enc \<Rightarrow>
                  (case lookup enc of
                     None \<Rightarrow> Inl LookupError
                   | Some c \<Rightarrow>
                       (case decode c b of
                          None \<Rightarrow> Inl UnicodeDecodeError
                        | Some s \<Rightarrow> Inr (PyStr (universal_newlines s))))))"

definition get ::
  "(string \<Rightarrow> codec option) \<Rightarrow> store \<Rightarrow> string \<Rightarrow> bool option \<Rightarrow> string option \<Rightarrow> filesystem
     \<Rightarrow> error + pyvalue option" where
  "get lookup self key as_bytes encoding fs =
     (let file_path = join_path (self_root_dir self) key
      in if has self key fs then
           map_sum id Some (read_file lookup self (str_path file_path) as_bytes encoding fs)
         else if exists fs key then
           map_sum id Some (read_file lookup self key as_bytes encoding fs)
         else Inr None)"

definition set_value ::
  "(string \<Rightarrow> codec option) \<Rightarrow> store \<Rightarrow> string \<Rightarrow> pyvalue \<Rightarrow> string option \<Rightarrow> filesystem
     \<Rightarrow> (error + unit) \<times> filesystem" where
  \<comment> \<open>\<open>FilePipelineStorage.set\<close>. The file is created or truncated when it is opened; an
      unknown encoding, a value that is neither bytes nor text, or a text that the codec
      cannot encode raises after that and leaves the file empty.\<close>
  "set_value lookup self key v encoding fs =
     (let is_bytes = isinstance_bytes v;
          encoding = (if is_bytes then None else Some (or_str encoding (self_encoding self)))
      in case open_write fs (str_path (join_path (self_root_dir self) key)) of
           Inl e \<Rightarrow> (Inl e, fs)
         | Inr (loc, fs1) \<Rightarrow>
             (case encoding of
                None \<Rightarrow>
                  (case v of
                     PyBytes b \<Rightarrow> (Inr (), fs1\<lparr>nodes := (nodes fs1)(loc \<mapsto> File b)\<rparr>)
                   | _ \<Rightarrow> (Inl TypeError, fs1))
              | Some enc \<Rightarrow>
                  (case lookup enc of
                     None \<Rightarrow> (Inl LookupError, fs1)
                   | Some c \<Rightarrow>
                       (case v of
                          PyStr s \<Rightarrow>
                            (case encode c (write_newlines s) of
                               None \<Rightarrow> (Inl UnicodeEncodeError, fs1)
                             | Some b \<Rightarrow> (Inr (), fs1\<lparr>nodes := (nodes fs1)(loc \<mapsto> File b)\<rparr>))
                        | _ \<Rightarrow> (Inl TypeError, fs1)))))"


definition child :: "store \<Rightarrow> string option \<Rightarrow> filesystem \<Rightarrow> error + store \<times> filesystem" where
  "child self child_name fs =
     (case child_name of
        None \<Rightarrow> Inr (self, fs)
      | Some n \<Rightarrow> init (Some (str_path (truediv (Path (self_root_dir self)) (Path n)))) None fs)"



section \<open>Example codecs and file systems\<close>

definition latin1 :: codec where
  "latin1 =
     \<lparr> encode = (\<lambda>s. if list_all (\<lambda>c. c < 256) s then Some (map of_nat s) else None),
       decode = (\<lambda>b. Some (map unat b)) \<rparr>"

definition ascii :: codec where
  "ascii =
     \<lparr> encode = (\<lambda>s. if list_all (\<lambda>c. c < 128) s then Some (map of_nat s) else None),
       decode = (\<lambda>b. if list_all (\<lambda>x. unat x < 128) b then Some (map unat b) else None) \<rparr>"

definition example_lookup :: "string \<Rightarrow> codec option" where
  "example_lookup = map_of [(''latin-1'', latin1), (''ascii'', ascii)]"

definition home_fs :: filesystem where
  "home_fs =
     \<lparr> cwd = [''home'', ''u''],
       nodes = [[''home''] \<mapsto> Dir, [''home'', ''u''] \<mapsto> Dir, [''home'', ''u'', ''out''] \<mapsto> Dir] \<rparr>"

definition latin_store :: store where
  "latin_store = \<lparr> self_root_dir = ''out'', self_encoding = ''latin-1'' \<rparr>"

section \<open>Properties of find\<close>

lemma yielded_append: "yielded (xs @ ys) = yielded xs @ yielded ys"
  by (induction xs rule: yielded.induct) auto

lemma listed_append: "listed (xs @ ys) = listed xs @ listed ys"
  by (induction xs rule: listed.induct) auto


lemma yielded_yield_files:
  "(0 < max_count \<longrightarrow> k < max_count) \<Longrightarrow> 0 \<le> k \<Longrightarrow>
   map fst (yielded (yield_files max_count progress k nf nt files)) =
     (if 0 < max_count then take (nat (max_count - k)) files else files)"
proof (induction files arbitrary: k)
  case Nil
  then show ?case by simp
next
  case (Cons f fs)
  show ?case
  proof (cases "0 < max_count \<and> k + 1 \<ge> max_count")
    case True
    with Cons.prems have "max_count - k = 1" by linarith
    with True show ?thesis by (simp add: Let_def)
  next
    case False
    with Cons.prems have h: "(0 < max_count \<longrightarrow> k + 1 < max_count)" "0 \<le> k + 1" by auto
    have t: "take (nat (max_count - k)) (f # fs) = f # take (nat (max_count - (k + 1))) fs"
      if "0 < max_count"
    proof -
      from that h have "nat (max_count - k) = Suc (nat (max_count - (k + 1)))" by linarith
      then show ?thesis by simp
    qed
    from False Cons.IH [OF h] t show ?thesis
      by (auto simp add: Let_def yielded_append split: option.splits)
  qed
qed

lemma collect_items_trace:
  "collect_items srv sh fp ps = (items, fault, tr) \<Longrightarrow>
     yielded tr = [] \<and> consumer_view tr = [] \<and> Close \<notin> set tr"
  by (induction ps arbitrary: items fault tr) (auto split: sum.splits prod.splits)

lemma find_files_yielded:
  assumes "connect_result srv userid password file_server 445 = None"
  shows "map fst (yielded (snd (find_files srv self pat base_dir progress filt max_count
            userid password share file_server file_path))) =
         limit max_count (discovered srv share file_path)"
proof -
  obtain items fault tr where c: "collect_items srv share file_path patterns = (items, fault, tr)"
    by (cases "collect_items srv share file_path patterns") auto
  from collect_items_trace [OF c] have y: "yielded tr = []" by simp
  have "map fst (yielded (yield_files max_count progress 0 0 (int (length items)) (map filename items)))
        = limit max_count (map filename items)"
    using yielded_yield_files [of max_count 0 progress 0 "int (length items)" "map filename items"]
    by (simp add: limit_def)
  with assms c y show ?thesis
    by (simp add: find_files_def discovered_def Let_def yielded_append split: option.splits)
qed

text \<open>
  C7. With the session established, \<open>find\<close> with \<open>max_count = n > 0\<close> yields the first
  \<open>n\<close> of the discovered file names, in order, so exactly \<open>min n (number discovered)\<close>
  items, and nothing after them; with \<open>max_count \<le> 0\<close> it yields every discovered name.
\<close>

theorem find_max_count:
  assumes "connect_result srv userid password file_server 445 = None"
  shows "map fst (yielded (snd (find_files srv self pat base_dir progress filt max_count
            userid password share file_server file_path))) =
         (if 0 < max_count then take (nat max_count) (discovered srv share file_path)
          else discovered srv share file_path)
       \<and> length (yielded (snd (find_files srv self pat base_dir progress filt max_count
            userid password share file_server file_path))) =
         (if 0 < max_count then min (nat max_count) (length (discovered srv share file_path))
          else length (discovered srv share file_path))"
proof -
  let ?tr = "snd (find_files srv self pat base_dir progress filt max_count
            userid password share file_server file_path)"
  have a: "map fst (yielded ?tr) = limit max_count (discovered srv share file_path)"
    by (rule find_files_yielded [OF assms])
  have "length (yielded ?tr) = length (map fst (yielded ?tr))" by simp
  also have "\<dots> = length (limit max_count (discovered srv share file_path))"
    by (simp only: a)
  finally show ?thesis using a by (simp add: limit_def min.commute)
qed

subsection \<open>The example share\<close>

lemma office_discovered:
  "discovered office_share (Some ''anthra'') (Some ''in'') =
     [''a.docx'', ''b.docx'', ''c.pdf'', ''d.xlsx'', ''e.xlsx'', ''f.txt'', ''g.txt'', ''h.txt'', ''i.md'', ''j.csv'']"
  by (simp add: discovered_def patterns_def office_share_def office_listing_def file_named_def)

theorem find_max_count_witness:
  "connect_result office_share (Some ''alice'') (Some ''secret'') (Some ''fs01'') 445 = None
   \<and> length (discovered office_share (Some ''anthra'') (Some ''in'')) = 10
   \<and> map fst (yielded (snd (find_files office_share out_store ''.*'' None None None 3
        (Some ''alice'') (Some ''secret'') (Some ''anthra'') (Some ''fs01'') (Some ''in''))))
     = [''a.docx'', ''b.docx'', ''c.pdf'']"
proof -
  have c: "connect_result office_share (Some ''alice'') (Some ''secret'') (Some ''fs01'') 445 = None"
    by (simp add: office_share_def)
  show ?thesis
    using find_max_count [OF c, of out_store "''.*''" None None None 3 "Some ''anthra''" "Some ''in''"] c
    by (simp add: office_discovered)
qed







lemma collect_items_fault:
  assumes "\<forall>q\<in>set before. listPath_result srv sh fp q = Inr (files_of q)"
    and "listPath_result srv sh fp p = Inl e"
  shows "collect_items srv sh fp (before @ p # rest) =
           (concat (map files_of before), Some e, map (ListPath sh fp) (before @ [p]))"
  using assms by (induction before) auto

text \<open>
  C3 (as amended). When the session is established and the listing of one pattern raises,
  the patterns before it having been listed, \<open>find\<close> does not raise: the error is
  printed, no pattern after the failing one is listed, and the items yielded are those
  collected from the patterns before it (cut at a positive \<open>max_count\<close>).
\<close>

theorem find_listing_fault:
  assumes "connect_result srv userid password file_server 445 = None"
    and "patterns = before @ p # rest"
    and "\<forall>q\<in>set before. listPath_result srv share file_path q = Inr (files_of q)"
    and "listPath_result srv share file_path p = Inl e"
  shows "fst (find_files srv self pat base_dir progress filt max_count
            userid password share file_server file_path) = Inr ()
       \<and> listed (snd (find_files srv self pat base_dir progress filt max_count
            userid password share file_server file_path)) = before @ [p]
       \<and> Print e \<in> set (snd (find_files srv self pat base_dir progress filt max_count
            userid password share file_server file_path))
       \<and> map fst (yielded (snd (find_files srv self pat base_dir progress filt max_count
            userid password share file_server file_path))) =
         limit max_count (map filename (concat (map files_of before)))"
proof -
  let ?r = "find_files srv self pat base_dir progress filt max_count
            userid password share file_server file_path"
  have c: "collect_items srv share file_path patterns =
           (concat (map files_of before), Some e, map (ListPath share file_path) (before @ [p]))"
    unfolding assms(2) by (rule collect_items_fault [OF assms(3,4)])
  have l: "listed (map (ListPath share file_path) xs) = xs" for xs
    by (induction xs) auto
  have n: "listed (yield_files max_count progress k nf nt fs) = []" for k nf nt fs
    by (induction fs arbitrary: k) (auto simp add: Let_def listed_append split: option.splits)
  have d: "discovered srv share file_path = map filename (concat (map files_of before))"
    by (simp add: discovered_def c)
  have 1: "fst ?r = Inr ()"
    using assms(1) c by (simp add: find_files_def Let_def)
  have 2: "listed (snd ?r) = before @ [p]"
    using assms(1) c l [of "before @ [p]"] n
    by (simp add: find_files_def Let_def listed_append del: map_append)
  have 3: "Print e \<in> set (snd ?r)"
    using assms(1) c by (simp add: find_files_def Let_def)
  have 4: "map fst (yielded (snd ?r)) = limit max_count (map filename (concat (map files_of before)))"
    using find_files_yielded [OF assms(1)] d by simp
  from 1 2 3 4 show ?thesis by simp
qed


lemma flaky_connect:
  "connect_result flaky_share (Some ''alice'') (Some ''secret'') (Some ''fs01'') 445 = None"
  by (simp add: flaky_share_def office_share_def)

theorem find_listing_fault_witness:
  "connect_result flaky_share (Some ''alice'') (Some ''secret'') (Some ''fs01'') 445 = None
   \<and> patterns = [''*.docx''] @ ''*.pdf'' # [''*.xlsx'', ''*.xlsm'', ''*.pptx'', ''*.txt'', ''*.html'', ''*.md'', ''*.csv'']
   \<and> listPath_result flaky_share (Some ''anthra'') (Some ''in'') ''*.docx''
       = Inr [file_named ''a.docx'', file_named ''b.docx'']
   \<and> listPath_result flaky_share (Some ''anthra'') (Some ''in'') ''*.pdf'' = Inl OperationFailure
   \<and> fst (find_files flaky_share out_store ''.*'' None None None 0
        (Some ''alice'') (Some ''secret'') (Some ''anthra'') (Some ''fs01'') (Some ''in'')) = Inr ()
   \<and> listed (snd (find_files flaky_share out_store ''.*'' None None None 0
        (Some ''alice'') (Some ''secret'') (Some ''anthra'') (Some ''fs01'') (Some ''in'')))
       = [''*.docx'', ''*.pdf'']
   \<and> Print OperationFailure \<in> set (snd (find_files flaky_share out_store ''.*'' None None None 0
        (Some ''alice'') (Some ''secret'') (Some ''anthra'') (Some ''fs01'') (Some ''in'')))
   \<and> map fst (yielded (snd (find_files flaky_share out_store ''.*'' None None None 0
        (Some ''alice'') (Some ''secret'') (Some ''anthra'') (Some ''fs01'') (Some ''in''))))
       = [''a.docx'', ''b.docx'']"
proof -
  have p: "patterns = [''*.docx''] @ ''*.pdf'' # [''*.xlsx'', ''*.xlsm'', ''*.pptx'', ''*.txt'', ''*.html'', ''*.md'', ''*.csv'']"
    by (simp add: patterns_def)
  have b: "\<forall>q\<in>set [''*.docx'']. listPath_result flaky_share (Some ''anthra'') (Some ''in'') q
             = Inr ((\<lambda>q. [file_named ''a.docx'', file_named ''b.docx'']) q)"
    by (simp add: flaky_share_def office_share_def office_listing_def)
  have f: "listPath_result flaky_share (Some ''anthra'') (Some ''in'') ''*.pdf'' = Inl OperationFailure"
    by (simp add: flaky_share_def)
  show ?thesis
    using find_listing_fault [OF flaky_connect p b f, of out_store "''.*''" None None None 0] b f
    by (simp add: flaky_connect p limit_def file_named_def)
qed

text \<open>
  C3 as stated fails: when the listing of \<open>*.pdf\<close> raises, \<open>*.txt\<close> is never listed
  and its files, which the share would have reported, are not yielded.
\<close>

theorem find_listing_fault_counterexample:
  "listPath_result flaky_share (Some ''anthra'') (Some ''in'') ''*.txt''
     = Inr [file_named ''f.txt'', file_named ''g.txt'', file_named ''h.txt'']
   \<and> ''*.txt'' \<notin> set (listed (snd (find_files flaky_share out_store ''.*'' None None None (- 1)
        (Some ''alice'') (Some ''secret'') (Some ''anthra'') (Some ''fs01'') (Some ''in''))))
   \<and> ''f.txt'' \<notin> set (map fst (yielded (snd (find_files flaky_share out_store ''.*'' None None None (- 1)
        (Some ''alice'') (Some ''secret'') (Some ''anthra'') (Some ''fs01'') (Some ''in'')))))"
  by (simp add: find_files_def flaky_share_def office_share_def office_listing_def patterns_def
      file_named_def Let_def)

section \<open>Properties of getText\<close>

lemma func_dict_unbound: "load_global ''func_dict'' = Inl (NameError ''func_dict'')"
  by (simp add: load_global_def module_globals_def builtins_def)


text \<open>
  As the module stands no call of \<open>getText\<close> returns: the connect raises, or the
  retrieval raises, or the lookup of \<open>func_dict\<close> does.
\<close>

lemma getText_raises:
  "\<exists>e. fst (getText libs srv self key as_bytes encoding
        userid password share_directory file_server file_path) = Inl e"
  by (simp add: getText_def Let_def func_dict_unbound split: option.splits sum.splits)


lemma yield_files_subset:
  "set (map fst (yielded (yield_files max_count progress k nf nt files))) \<subseteq> set files"
  by (induction files arbitrary: k) (auto simp add: Let_def yielded_append split: option.splits)


text \<open>
  C2. The code raises where an empty result is promised: the file \<open>notes.xyz\<close> is
  on the share and is retrieved, its extension is in no extraction rule, and the lookup of
  the name \<open>func_dict\<close> in the body of \<open>getText\<close> raises \<open>NameError\<close> (the table is an
  attribute of the class, which a method body does not see as a bare name).
\<close>

theorem getText_unknown_extension_raises:
  "retrieveFile_result office_share ''anthra'' ''in/notes.xyz'' = Inr [1, 2, 3]
   \<and> map_of func_dict (lower (drop 1 (snd (splitext ''notes.xyz'')))) = None
   \<and> getText libs office_share out_store ''notes.xyz'' None None
        (Some ''alice'') (Some ''secret'') (Some ''anthra'') (Some ''fs01'') (Some ''in'')
     = (Inl (NameError ''func_dict''),
        [Connect (Some ''fs01'') 445 None, RetrieveFile ''anthra'' ''in/notes.xyz''])"
  by (simp add: getText_def office_share_def Let_def func_dict_unbound format_str_def
      splitext_def rfind_def lower_def func_dict_def)

lemma getText_never_closes:
  "Close \<notin> set (snd (getText libs srv self key as_bytes encoding
        userid password share_directory file_server file_path))"
  by (simp add: getText_def Let_def func_dict_unbound split: option.splits sum.splits)

lemma getText_session_left_open:
  "connect_result srv userid password file_server 445 = None \<Longrightarrow>
     session_open False (snd (getText libs srv self key as_bytes encoding
        userid password share_directory file_server file_path))"
  by (simp add: getText_def Let_def func_dict_unbound split: sum.splits)

text \<open>
  C4. The code leaves the session open where it is to be closed on every exit path: the file
  \<open>missing.docx\<close> is not on the share, the retrieval raises, the error goes to the caller
  and the close at the end of the body is not reached. (No call of \<open>getText\<close> reaches it:
  a call that has connected ends with its session open, whatever its arguments.)
\<close>

theorem getText_leaves_session_open:
  "getText example_libs office_share out_store ''missing.docx'' None None
        (Some ''alice'') (Some ''secret'') (Some ''anthra'') (Some ''fs01'') (Some ''in'')
     = (Inl OperationFailure,
        [Connect (Some ''fs01'') 445 None, RetrieveFile ''anthra'' ''in/missing.docx''])
   \<and> session_open False (snd (getText example_libs office_share out_store ''missing.docx'' None None
        (Some ''alice'') (Some ''secret'') (Some ''anthra'') (Some ''fs01'') (Some ''in'')))"
  by (simp add: getText_def office_share_def Let_def format_str_def)



section \<open>Properties of the extraction rules\<close>

lemma replace_char_empty: "replace s [c] [] = filter (\<lambda>x. x \<noteq> c) s"
  by (induction s) auto

text \<open>
  C6 (as amended). For every document that the parser accepts, the docx rule returns the
  texts of the paragraphs in document order, concatenated with no separator, with every
  space (U+0020) and every ideographic space (U+3000) removed.
\<close>

theorem get_text_from_word_strips_spaces:
  assumes "docx_Document libs file = Inr document"
  shows "get_text_from_word libs file =
           Inr (filter (\<lambda>c. c \<noteq> 32 \<and> c \<noteq> 12288) (concat (map par_text (paragraphs document))))"
proof -
  have "filter (\<lambda>x. x \<noteq> 12288) (filter (\<lambda>x. x \<noteq> 32) s) = filter (\<lambda>c. c \<noteq> 32 \<and> c \<noteq> 12288) s"
    for s :: pystr
    by (induction s) auto
  with assms show ?thesis
    by (simp add: get_text_from_word_def Let_def replace_char_empty)
qed

theorem get_text_from_word_strips_spaces_witness:
  "docx_Document example_libs [80, 75, 3, 4]
     = Inr (Document [Paragraph [97, 32, 98], Paragraph [99, 12288, 100]])
   \<and> get_text_from_word example_libs [80, 75, 3, 4] = Inr [97, 98, 99, 100]"
proof -
  have d: "docx_Document example_libs [80, 75, 3, 4]
     = Inr (Document [Paragraph [97, 32, 98], Paragraph [99, 12288, 100]])"
    by (simp add: example_libs_def)
  show ?thesis
    using get_text_from_word_strips_spaces [OF d] d by simp
qed

text \<open>
  C6 as stated fails: the paragraphs \<open>a b\<close> and \<open>c\<close>, U+3000, \<open>d\<close> concatenate to seven
  characters, and the rule returns the four letters.
\<close>

theorem get_text_from_word_counterexample:
  "get_text_from_word example_libs [80, 75, 3, 4]
     \<noteq> Inr (concat (map par_text [Paragraph [97, 32, 98], Paragraph [99, 12288, 100]]))"
  by (simp add: get_text_from_word_def example_libs_def Let_def)

section \<open>Properties of paths\<close>

lemma split_on_nonempty: "split_on sep s \<noteq> []"
  by (induction s) (auto split: list.splits)

lemma split_on_no_sep: "x \<in> set (split_on sep s) \<Longrightarrow> sep \<notin> set x"
  by (induction s arbitrary: x) (auto split: list.splits if_splits)

lemma split_on_single: "sep \<notin> set x \<Longrightarrow> split_on sep x = [x]"
  by (induction x) auto

lemma Path_empty: "Path [] = PosixPath [] []"
  by (simp add: Path_def)

lemma Path_component:
  assumes "x \<noteq> []" and "x \<noteq> ''.''" and "CHR ''/'' \<notin> set x"
  shows "Path x = PosixPath [] [x]"
proof -
  from assms(1,3) have "takeWhile (\<lambda>c. c = CHR ''/'') x = []"
    by (cases x) auto
  with assms show ?thesis
    by (simp add: Path_def split_on_single)
qed

lemma parts_Path_component:
  "x \<in> set (parts (Path s)) \<Longrightarrow> x \<noteq> [] \<and> x \<noteq> ''.'' \<and> CHR ''/'' \<notin> set x"
  by (auto simp add: Path_def dest: split_on_no_sep)

lemma Path_name: "parts (Path s) \<noteq> [] \<Longrightarrow> Path (name (Path s)) = PosixPath [] [last (parts (Path s))]"
proof -
  assume n: "parts (Path s) \<noteq> []"
  then have "last (parts (Path s)) \<in> set (parts (Path s))" by simp
  from parts_Path_component [OF this] n show ?thesis
    by (simp add: name_def Path_component)
qed

lemma join_path_truediv: "join_path root key = truediv (Path root) (Path key)"
proof (cases "parts (Path key) = []")
  case True
  then show ?thesis
    by (cases "Path key") (simp add: join_path_def parent_def name_def Path_empty truediv_def)
next
  case False
  then have "butlast (parts (Path key)) @ [last (parts (Path key))] = parts (Path key)"
    by simp
  with False Path_name [OF False] show ?thesis
    by (cases "Path key") (auto simp add: join_path_def parent_def truediv_def)
qed



section \<open>Properties of the local store\<close>

text \<open>
  C10. Whenever \<open>child\<close> is given a name and returns a store, the encoding of that store
  is \<open>utf-8\<close> and its root is the parent's root joined with the name, whatever the
  encoding of the parent store is: \<open>child\<close> hands no encoding to the constructor.
\<close>

theorem child_encoding_default:
  assumes "child self (Some n) fs = Inr (st, fs')"
  shows "self_encoding st = ''utf-8''
       \<and> self_root_dir st = str_path (truediv (Path (self_root_dir self)) (Path n))"
  using assms
  by (auto simp add: child_def init_def Let_def or_str_def split: sum.splits if_splits)

theorem child_encoding_default_witness:
  "self_encoding latin_store = ''latin-1''
   \<and> map_sum id (\<lambda>r. (self_root_dir (fst r), self_encoding (fst r)))
        (child latin_store (Some ''sub'') home_fs) = Inr (''out/sub'', ''utf-8'')"
proof -
  have r: "str_path (truediv (Path ''out'') (Path ''sub'')) = ''out/sub''"
    by (simp add: Path_def truediv_def str_path_def)
  have q: "Path ''out/sub'' = PosixPath [] [''out'', ''sub'']"
    by (simp add: Path_def)
  have s: "str_path (PosixPath [] [''out'', ''sub'']) = ''out/sub''"
    by (simp add: str_path_def)
  have l: "locate home_fs ''out/sub'' = Inr [''home'', ''u'', ''out'', ''sub'']"
    by (simp add: locate_def home_fs_def node_at_def enter_def)
  have m: "os_mkdir home_fs ''out/sub''
       = Inr (home_fs\<lparr>nodes := (nodes home_fs)([''home'', ''u'', ''out'', ''sub''] \<mapsto> Dir)\<rparr>)"
    by (simp add: os_mkdir_def l) (simp add: home_fs_def node_at_def)
  have mk: "mkdir (PosixPath [] [''out'', ''sub'']) True True home_fs
       = Inr (home_fs\<lparr>nodes := (nodes home_fs)([''home'', ''u'', ''out'', ''sub''] \<mapsto> Dir)\<rparr>)"
    by (simp add: mkdir.simps [of "PosixPath [] [''out'', ''sub'']" True True home_fs] s m)
  have c: "child latin_store (Some ''sub'') home_fs
       = Inr (\<lparr> self_root_dir = ''out/sub'', self_encoding = ''utf-8'' \<rparr>,
              home_fs\<lparr>nodes := (nodes home_fs)([''home'', ''u'', ''out'', ''sub''] \<mapsto> Dir)\<rparr>)"
    by (simp add: child_def init_def Let_def or_str_def latin_store_def r q mk)
  show ?thesis
    unfolding c using child_encoding_default [OF c] by (simp add: latin_store_def)
qed

section \<open>Round trip through the local store\<close>

lemma walk_after_write:
  assumes "walk fs cur cs = Inr l" and "node_at fs loc \<noteq> Some Dir"
  shows "walk (fs\<lparr>nodes := (nodes fs)(loc \<mapsto> File b)\<rparr>) cur cs = Inr l"
  using assms(1)
proof (induction cs arbitrary: cur)
  case Nil
  then show ?case by simp
next
  case (Cons c cs)
  have d: "node_at fs cur = Some Dir"
  proof (cases "node_at fs cur")
    case None
    with Cons.prems show ?thesis by simp
  next
    case (Some n)
    with Cons.prems show ?thesis by (cases n) simp_all
  qed
  with assms(2) have "cur \<noteq> loc" by auto
  with d have d': "node_at (fs\<lparr>nodes := (nodes fs)(loc \<mapsto> File b)\<rparr>) cur = Some Dir"
    by (auto simp add: node_at_def split: if_splits)
  from Cons.prems d have "walk fs (enter cur c) cs = Inr l"
    by simp
  from Cons.IH [OF this] show ?case
    by (simp only: walk.simps d' option.case node.case)
qed

lemma locate_after_write:
  assumes "locate fs p = Inr l" and "node_at fs loc \<noteq> Some Dir"
  shows "locate (fs\<lparr>nodes := (nodes fs)(loc \<mapsto> File b)\<rparr>) p = Inr l"
proof -
  let ?start = "if hd p = CHR ''/'' then [] else cwd fs"
  let ?comps = "filter (\<lambda>c. c \<noteq> []) (split_on (CHR ''/'') p)
              @ (if last p = CHR ''/'' then [''.''] else [])"
  from assms(1) have n: "p \<noteq> []" by (auto simp add: locate_def)
  with assms(1) have w: "walk fs ?start ?comps = Inr l"
    by (simp add: locate_def split del: if_split)
  have c: "cwd (fs\<lparr>nodes := (nodes fs)(loc \<mapsto> File b)\<rparr>) = cwd fs"
    by simp
  from walk_after_write [OF w assms(2), of b] n show ?thesis
    unfolding locate_def c by (simp split del: if_split)
qed

lemma open_write_then_read:
  assumes "open_write fs p = Inr (loc, fs1)"
  shows "open_read (fs1\<lparr>nodes := (nodes fs1)(loc \<mapsto> File b)\<rparr>) p = Inr b
       \<and> exists (fs1\<lparr>nodes := (nodes fs1)(loc \<mapsto> File b)\<rparr>) p"
proof -
  from assms have l: "locate fs p = Inr loc" and n: "node_at fs loc \<noteq> Some Dir"
    and f: "fs1 = fs\<lparr>nodes := (nodes fs)(loc \<mapsto> File [])\<rparr>"
    by (auto simp add: open_write_def split: sum.splits if_splits)
  have e: "fs1\<lparr>nodes := (nodes fs1)(loc \<mapsto> File b)\<rparr> = fs\<lparr>nodes := (nodes fs)(loc \<mapsto> File b)\<rparr>"
    by (simp add: f)
  from n have "loc \<noteq> []" by (auto simp add: node_at_def)
  then have a: "node_at (fs\<lparr>nodes := (nodes fs)(loc \<mapsto> File b)\<rparr>) loc = Some (File b)"
    by (simp add: node_at_def)
  from locate_after_write [OF l n, of b] a show ?thesis
    unfolding e by (simp add: open_read_def exists_def)
qed

lemma universal_newlines_id: "13 \<notin> set s \<Longrightarrow> universal_newlines s = s"
  by (induction s rule: universal_newlines.induct) auto

lemma write_newlines_id: "write_newlines s = s"
  by (induction s) (auto simp add: write_newlines_def os_linesep_def)

lemma universal_newlines_fixed: "universal_newlines s = s \<longleftrightarrow> 13 \<notin> set s"
  by (induction s rule: universal_newlines.induct) auto

text \<open>
  C1 (as amended). After a \<open>set\<close> that succeeds, a \<open>get\<close> of the same key with the
  matching mode and the same encoding returns the written bytes, when the value is a byte
  sequence, and, when the value is a text that the codec decodes back from the bytes it
  encoded it to, that text with every carriage return, together with the line feed after
  it if there is one, replaced by one line feed. So the content returned equals the value
  written exactly when the value is a byte sequence or a text without a carriage return.
\<close>

theorem set_get_roundtrip:
  assumes "set_value lookup self key v encoding fs = (Inr (), fs')"
    and "truthy as_bytes = isinstance_bytes v"
    and "\<And>s c b. v = PyStr s \<Longrightarrow> lookup (or_str encoding (self_encoding self)) = Some c
           \<Longrightarrow> encode c s = Some b \<Longrightarrow> decode c b = Some s"
  shows "get lookup self key as_bytes encoding fs'
           = Inr (Some (case v of PyStr s \<Rightarrow> PyStr (universal_newlines s) | _ \<Rightarrow> v))
       \<and> (get lookup self key as_bytes encoding fs' = Inr (Some v)
            \<longleftrightarrow> (\<forall>s. v = PyStr s \<longrightarrow> 13 \<notin> set s))"
proof -
  let ?p = "str_path (join_path (self_root_dir self) key)"
  from assms(1) obtain loc fs1 where o: "open_write fs ?p = Inr (loc, fs1)"
    by (auto simp add: set_value_def Let_def split: sum.splits)
  have g: "get lookup self key as_bytes encoding fs'
           = Inr (Some (case v of PyStr s \<Rightarrow> PyStr (universal_newlines s) | _ \<Rightarrow> v))"
  proof (cases v)
    case (PyBytes b)
    with assms(1) o have f: "fs' = fs1\<lparr>nodes := (nodes fs1)(loc \<mapsto> File b)\<rparr>"
      by (simp add: set_value_def isinstance_bytes_def)
    from PyBytes assms(2) have t: "truthy as_bytes" by (simp add: isinstance_bytes_def)
    from open_write_then_read [OF o, of b] t PyBytes show ?thesis
      unfolding f by (simp add: get_def has_def read_file_def)
  next
    case (PyStr s)
    let ?enc = "or_str encoding (self_encoding self)"
    from assms(1) o PyStr obtain c b where c: "lookup ?enc = Some c"
      and b: "encode c s = Some b"
      and f: "fs' = fs1\<lparr>nodes := (nodes fs1)(loc \<mapsto> File b)\<rparr>"
      by (auto simp add: set_value_def isinstance_bytes_def write_newlines_id
          split: option.splits)
    from PyStr assms(2) have t: "\<not> truthy as_bytes" by (simp add: isinstance_bytes_def)
    from assms(3) [OF PyStr c b] have d: "decode c b = Some s" .
    from open_write_then_read [OF o, of b] t PyStr c d show ?thesis
      unfolding f by (simp add: get_def has_def read_file_def)
  next
    case PyOther
    with assms(1) o show ?thesis
      by (auto simp add: set_value_def isinstance_bytes_def split: option.splits)
  qed
  have "(case v of PyStr s \<Rightarrow> PyStr (universal_newlines s) | _ \<Rightarrow> v) = v
        \<longleftrightarrow> (\<forall>s. v = PyStr s \<longrightarrow> 13 \<notin> set s)"
    by (cases v) (simp_all add: universal_newlines_fixed)
  with g show ?thesis by simp
qed

lemma home_k_path: "str_path (join_path ''out'' ''k.txt'') = ''out/k.txt''"
  by (simp add: join_path_truediv Path_def truediv_def str_path_def)

lemma home_k_open:
  "open_write home_fs ''out/k.txt''
     = Inr ([''home'', ''u'', ''out'', ''k.txt''],
            home_fs\<lparr>nodes := (nodes home_fs)([''home'', ''u'', ''out'', ''k.txt''] \<mapsto> File [])\<rparr>)"
proof -
  have "locate home_fs ''out/k.txt'' = Inr [''home'', ''u'', ''out'', ''k.txt'']"
    by (simp add: locate_def home_fs_def node_at_def enter_def)
  then show ?thesis
    by (simp add: open_write_def) (simp add: home_fs_def node_at_def)
qed

theorem set_get_roundtrip_witness:
  "get example_lookup latin_store ''k.txt'' None None
     (home_fs\<lparr>nodes := (nodes home_fs)([''home'', ''u'', ''out'', ''k.txt'']
        \<mapsto> File [97, 233, 13, 10, 98])\<rparr>)
   = Inr (Some (PyStr [97, 233, 10, 98]))"
proof -
  have s: "set_value example_lookup latin_store ''k.txt'' (PyStr [97, 233, 13, 10, 98]) None home_fs
      = (Inr (), home_fs\<lparr>nodes := (nodes home_fs)([''home'', ''u'', ''out'', ''k.txt'']
            \<mapsto> File [97, 233, 13, 10, 98])\<rparr>)"
    by (simp add: set_value_def isinstance_bytes_def latin_store_def home_k_path home_k_open
        or_str_def example_lookup_def latin1_def write_newlines_id)
  have m: "truthy None = isinstance_bytes (PyStr [97, 233, 13, 10, 98])"
    by (simp add: truthy_def isinstance_bytes_def)
  have d: "\<And>s c b. PyStr [97, 233, 13, 10, 98] = PyStr s
      \<Longrightarrow> example_lookup (or_str None (self_encoding latin_store)) = Some c
      \<Longrightarrow> encode c s = Some b \<Longrightarrow> decode c b = Some s"
    by (auto simp add: or_str_def latin_store_def example_lookup_def latin1_def)
  have u: "universal_newlines [97, 233, 13, 10, 98] = [97, 233, 10, 98]"
    by simp
  have "get example_lookup latin_store ''k.txt'' None None
     (home_fs\<lparr>nodes := (nodes home_fs)([''home'', ''u'', ''out'', ''k.txt'']
        \<mapsto> File [97, 233, 13, 10, 98])\<rparr>)
      = Inr (Some (case PyStr [97, 233, 13, 10, 98] of
                     PyStr s \<Rightarrow> PyStr (universal_newlines s) | _ \<Rightarrow> PyStr [97, 233, 13, 10, 98]))"
    using s m d by (rule set_get_roundtrip [THEN conjunct1])
  then show ?thesis
    by (simp only: pyvalue.case u)
qed

text \<open>
  C1 as stated fails: a text with a carriage return is written as it is and read back with
  a line feed in its place.
\<close>

theorem set_get_carriage_return_counterexample:
  "fst (set_value example_lookup latin_store ''k.txt'' (PyStr [97, 13, 98]) None home_fs) = Inr ()
   \<and> get example_lookup latin_store ''k.txt'' None None
       (snd (set_value example_lookup latin_store ''k.txt'' (PyStr [97, 13, 98]) None home_fs))
     = Inr (Some (PyStr [97, 10, 98]))"
proof -
  have s: "set_value example_lookup latin_store ''k.txt'' (PyStr [97, 13, 98]) None home_fs
      = (Inr (), home_fs\<lparr>nodes := (nodes home_fs)([''home'', ''u'', ''out'', ''k.txt'']
            \<mapsto> File [97, 13, 98])\<rparr>)"
    by (simp add: set_value_def isinstance_bytes_def latin_store_def home_k_path home_k_open
        or_str_def example_lookup_def latin1_def write_newlines_id)
  have r: "open_read (home_fs\<lparr>nodes := (nodes home_fs)([''home'', ''u'', ''out'', ''k.txt'']
            \<mapsto> File [97, 13, 98])\<rparr>) ''out/k.txt'' = Inr [97, 13, 98]
        \<and> exists (home_fs\<lparr>nodes := (nodes home_fs)([''home'', ''u'', ''out'', ''k.txt'']
            \<mapsto> File [97, 13, 98])\<rparr>) ''out/k.txt''"
    using open_write_then_read [OF home_k_open, of "[97, 13, 98]"] by simp
  show ?thesis
    unfolding s using r
    by (simp add: get_def has_def read_file_def latin_store_def home_k_path truthy_def
        or_str_def example_lookup_def latin1_def)
qed

section \<open>Keys and the root\<close>





















end
